theory Spec2Isabelle
  imports Main "HOL-Library.AList" "HOL-Library.FSet"
begin

section \<open>datasist.visualizations: data model\<close>

text \<open>
  The module \<^verbatim>\<open>datasist/visualizations.py\<close> wraps pandas, matplotlib and seaborn.
  A call is modelled by what it does to the objects the caller can observe:
  \<^item> the exception that leaves the call, if any (\<open>raised\<close>);
  \<^item> the calls made to \<^verbatim>\<open>print\<close>, \<^verbatim>\<open>display\<close>, \<^verbatim>\<open>plt\<close> and \<^verbatim>\<open>sns\<close>, in
    program order (\<open>events\<close>);
  \<^item> for \<^verbatim>\<open>catbox\<close>, which mutates its arguments in place, the caller's DataFrame
    and the caller's feature list as they are when the call ends.
  The plotting library is the external collaborator: a call to it is recorded with its
  arguments and returns. The one exception is \<^verbatim>\<open>sns.distplot\<close>, which is handed
  the values of a column and converts them to floats: whether it raises on them is a
  parameter of \<open>histogram\<close>. The helpers \<^verbatim>\<open>structdata.get_cat_feats\<close> and
  \<^verbatim>\<open>structdata.get_num_feats\<close> live in another module and are parameters
  of the functions that use them.
\<close>

subsection \<open>Cells, columns and DataFrames\<close>

datatype cell = Str string | Num int | NA

text \<open>
  A DataFrame: the number of rows (\<^verbatim>\<open>data.shape[0]\<close>) and the columns in
  order, each a name with its values.
\<close>

record dataframe =
  nrows :: nat
  cols :: "(string \<times> cell list) list"

definition df_columns :: "dataframe \<Rightarrow> string list" where
  "df_columns df = map fst (cols df)"

datatype error =
    ValueError string
  | AttributeError string
  | KeyError "string option"
  | TypeError string

text \<open>The apostrophe and the line feed, for the messages that contain them.\<close>

definition apos :: string where
  "apos = [CHR 0x27]"

definition newline :: string where
  "newline = [CHR 0x0A]"

definition data_none_msg :: string where
  "data_none_msg = ''data: Expecting a DataFrame or Series, got '' @ apos @ ''None'' @ apos"

definition target_none_msg :: string where
  "target_none_msg = ''Target value cannot be None''"

text \<open>
  \<^verbatim>\<open>df[key]\<close>: the column named \<open>key\<close>, \<^verbatim>\<open>KeyError\<close> when there is none
  (\<^verbatim>\<open>None\<close> names no column).
\<close>

definition getitem :: "dataframe \<Rightarrow> string option \<Rightarrow> error + cell list" where
  "getitem df key =
     (case key of
        None \<Rightarrow> Inl (KeyError None)
      | Some k \<Rightarrow>
          (case map_of (cols df) k of
             None \<Rightarrow> Inl (KeyError key)
           | Some c \<Rightarrow> Inr c))"

text \<open>
  \<^verbatim>\<open>data[key]\<close> where \<open>data\<close> may be \<^verbatim>\<open>None\<close>: subscripting \<^verbatim>\<open>None\<close> is a
  \<^verbatim>\<open>TypeError\<close>.
\<close>

definition subscript :: "dataframe option \<Rightarrow> string option \<Rightarrow> error + cell list" where
  "subscript data key =
     (case data of
        None \<Rightarrow> Inl (TypeError (apos @ ''NoneType'' @ apos @ '' object is not subscriptable''))
      | Some df \<Rightarrow> getitem df key)"

text \<open>
  \<^verbatim>\<open>Series.unique()\<close>: the distinct values in order of first appearance.
\<close>

definition unique :: "'a list \<Rightarrow> 'a list" where
  "unique xs = rev (remdups (rev xs))"

text \<open>
  \<^verbatim>\<open>data[name] = values\<close> replaces the column where it stands or appends it;
  \<^verbatim>\<open>data.drop([name], axis=1, inplace=True)\<close> removes it, \<^verbatim>\<open>KeyError\<close> when
  there is none.
\<close>

definition setitem :: "dataframe \<Rightarrow> string \<Rightarrow> cell list \<Rightarrow> dataframe" where
  "setitem df name vals = df\<lparr>cols := AList.update name vals (cols df)\<rparr>"

definition drop_column :: "dataframe \<Rightarrow> string \<Rightarrow> error + dataframe" where
  "drop_column df name =
     (if name \<in> set (df_columns df)
      then Inr (df\<lparr>cols := AList.delete name (cols df)\<rparr>)
      else Inl (KeyError (Some name)))"

subsection \<open>Observable calls\<close>

text \<open>
  The seaborn calls. Each records the feature it draws and the arguments the source
  passes. The tables handed to \<^verbatim>\<open>barplot\<close> and \<^verbatim>\<open>display\<close> are finite sets
  of rows: pandas orders them by key or by count, and that order is not modelled.
\<close>

datatype chart =
    Countplot string "string option"
  | Boxenplot string string
  | Boxplot string string
  | Violinplot string string
  | Distplot string "cell list" "nat option"
  | Barplot string "(cell \<times> nat) fset"
  | Scatterplot string string "string option"

datatype event =
    Print string
  | Display string "(cell \<times> nat) fset"
  | Figure "nat \<times> nat"
  | Subplot nat nat nat
  | SetStyle
  | Render chart
  | Xticks
  | Xlabel string
  | Ylabel string
  | Title string
  | CountsTitle string cell
  | TightLayout
  | Savefig string
  | Show

record outcome =
  raised :: "error option"
  events :: "event list"

definition raise :: "error \<Rightarrow> outcome" where
  "raise e = \<lparr>raised = Some e, events = []\<rparr>"

definition emit :: "event list \<Rightarrow> outcome" where
  "emit evs = \<lparr>raised = None, events = evs\<rparr>"

text \<open>
  Sequencing: the second part runs only when the first did not raise, and its events
  follow the first part's.
\<close>

definition and_then :: "outcome \<Rightarrow> outcome \<Rightarrow> outcome" where
  "and_then r k =
     (case raised r of
        Some e \<Rightarrow> r
      | None \<Rightarrow> \<lparr>raised = raised k, events = events r @ events k\<rparr>)"

text \<open>
  \<^verbatim>\<open>for x in xs: body\<close>: the iterations run in order and an exception raised by
  one of them ends the loop.
\<close>

fun for_each :: "('a \<Rightarrow> outcome) \<Rightarrow> 'a list \<Rightarrow> outcome" where
  "for_each body [] = emit []"
| "for_each body (x # xs) = and_then (body x) (for_each body xs)"

text \<open>The features drawn by a run, and the features it printed a warning for.\<close>

fun chart_feature :: "chart \<Rightarrow> string" where
  "chart_feature (Countplot f h) = f"
| "chart_feature (Boxenplot t f) = f"
| "chart_feature (Boxplot t f) = f"
| "chart_feature (Violinplot t f) = f"
| "chart_feature (Distplot f vs b) = f"
| "chart_feature (Barplot f rows) = f"
| "chart_feature (Scatterplot f t h) = f"

fun rendered :: "event list \<Rightarrow> string list" where
  "rendered [] = []"
| "rendered (Render c # evs) = chart_feature c # rendered evs"
| "rendered (e # evs) = rendered evs"

fun printed :: "event list \<Rightarrow> string list" where
  "printed [] = []"
| "printed (Print s # evs) = s # printed evs"
| "printed (e # evs) = printed evs"

text \<open>
  \<^verbatim>\<open>if cat_features is None: cat_features = structdata.get_cat_feats(data)\<close>
  (and the same for \<open>num_features\<close>): the list
  the loops run over.
\<close>

definition resolve ::
  "(dataframe \<Rightarrow> string list) \<Rightarrow> dataframe \<Rightarrow> string list option \<Rightarrow> string list" where
  "resolve infer df features =
     (case features of
        None \<Rightarrow> infer df
      | Some fs \<Rightarrow> fs)"

text \<open>
  \<^verbatim>\<open>key in data.columns\<close>, and \<^verbatim>\<open>len(data[feature].unique())\<close> for a feature
  that is a column.
\<close>

definition is_column :: "dataframe \<Rightarrow> string option \<Rightarrow> bool" where
  "is_column df key =
     (case key of
        None \<Rightarrow> False
      | Some k \<Rightarrow> k \<in> set (df_columns df))"

definition nunique :: "dataframe \<Rightarrow> string \<Rightarrow> nat" where
  "nunique df feature =
     (case getitem df (Some feature) of
        Inl e \<Rightarrow> 0
      | Inr col \<Rightarrow> length (unique col))"

section \<open>countplot\<close>

definition too_large_msg :: "string \<Rightarrow> string" where
  "too_large_msg feature = ''Unique Values in '' @ feature @ '' is too large to plot''"

definition countplot_body ::
  "dataframe \<Rightarrow> string option \<Rightarrow> nat \<times> nat \<Rightarrow> bool \<Rightarrow> string \<Rightarrow> outcome" where
  "countplot_body data separate_by fig_size save_fig feature =
     (case getitem data (Some feature) of
        Inl e \<Rightarrow> raise e
      | Inr col \<Rightarrow>
          if length (unique col) > 30
          then emit [Print (too_large_msg feature), Print newline]
          else emit ([Figure fig_size,
                      Render (Countplot feature separate_by),
                      Xticks,
                      Title (''Count plot for '' @ feature)]
                     @ (if save_fig then [Savefig (''Countplot_'' @ feature)] else [])))"

definition countplot ::
  "(dataframe \<Rightarrow> string list) \<Rightarrow> dataframe option \<Rightarrow> string list option \<Rightarrow>
   string option \<Rightarrow> nat \<times> nat \<Rightarrow> bool \<Rightarrow> outcome" where
  "countplot get_cat_feats data cat_features separate_by fig_size save_fig =
     (case data of
        None \<Rightarrow> raise (ValueError data_none_msg)
      | Some df \<Rightarrow>
          (let feats = resolve get_cat_feats df cat_features
           in for_each (countplot_body df separate_by fig_size save_fig) feats))"

section \<open>boxplot and violinplot\<close>

text \<open>
  Both functions test \<open>target\<close>, then the cardinality of \<^verbatim>\<open>data[target]\<close>, and
  only then \<open>data\<close>, in the order of the source.
\<close>

definition save_vs :: "bool \<Rightarrow> string \<Rightarrow> string \<Rightarrow> event list" where
  "save_vs save_fig feature target =
     (if save_fig then [Savefig (''fig_'' @ feature @ ''_vs_'' @ target)] else [])"

definition boxenplot_body :: "string \<Rightarrow> nat \<times> nat \<Rightarrow> bool \<Rightarrow> string \<Rightarrow> outcome" where
  "boxenplot_body target fig_size save_fig feature =
     emit ([Figure fig_size,
            SetStyle,
            Render (Boxenplot target feature),
            Ylabel feature,
            Xlabel target,
            Xticks,
            Title (''Box plot of '' @ feature @ '' against '' @ target)]
           @ save_vs save_fig feature target
           @ [Show])"

definition boxplot_body :: "string \<Rightarrow> nat \<times> nat \<Rightarrow> bool \<Rightarrow> string \<Rightarrow> outcome" where
  "boxplot_body target fig_size save_fig feature =
     emit ([Figure fig_size,
            SetStyle,
            Render (Boxplot target feature),
            Ylabel feature,
            Xlabel target,
            Xticks,
            Title (''Box plot of '' @ apos @ feature @ apos @ '' vs. '' @ apos @ target @ apos)]
           @ save_vs save_fig feature target
           @ [Show])"

definition boxplot ::
  "(dataframe \<Rightarrow> string list) \<Rightarrow> dataframe option \<Rightarrow> string list option \<Rightarrow>
   string option \<Rightarrow> nat \<times> nat \<Rightarrow> bool \<Rightarrow> bool \<Rightarrow> outcome" where
  "boxplot get_num_feats data num_features target fig_size large_data save_fig =
     (case target of
        None \<Rightarrow> raise (ValueError target_none_msg)
      | Some tgt \<Rightarrow>
          (case subscript data target of
             Inl e \<Rightarrow> raise e
           | Inr col \<Rightarrow>
               if length (unique col) > 10
               then raise (AttributeError ''Target categories must be less than 10'')
               else
                 (case data of
                    None \<Rightarrow> raise (ValueError data_none_msg)
                  | Some df \<Rightarrow>
                      (let feats = resolve get_num_feats df num_features
                       in if large_data
                          then for_each (boxenplot_body tgt fig_size save_fig) feats
                          else for_each (boxplot_body tgt fig_size save_fig) feats))))"

definition violinplot_body :: "string \<Rightarrow> nat \<times> nat \<Rightarrow> bool \<Rightarrow> string \<Rightarrow> outcome" where
  "violinplot_body target fig_size save_fig feature =
     emit ([Figure fig_size,
            SetStyle,
            Render (Violinplot target feature),
            Xticks,
            Ylabel feature,
            Xlabel target,
            Title (''Violin plot of '' @ apos @ feature @ apos @ '' vs. '' @ apos @ target @ apos)]
           @ save_vs save_fig feature target
           @ [Show])"

definition violinplot ::
  "(dataframe \<Rightarrow> string list) \<Rightarrow> dataframe option \<Rightarrow> string list option \<Rightarrow>
   string option \<Rightarrow> nat \<times> nat \<Rightarrow> bool \<Rightarrow> outcome" where
  "violinplot get_num_feats data num_features target fig_size save_fig =
     (case target of
        None \<Rightarrow> raise (ValueError target_none_msg)
      | Some tgt \<Rightarrow>
          (case subscript data target of
             Inl e \<Rightarrow> raise e
           | Inr col \<Rightarrow>
               if length (unique col) > 10
               then raise (AttributeError ''Target categories must be less than 10'')
               else
                 (case data of
                    None \<Rightarrow> raise (ValueError data_none_msg)
                  | Some df \<Rightarrow>
                      (let feats = resolve get_num_feats df num_features
                       in for_each (violinplot_body tgt fig_size save_fig) feats))))"

section \<open>histogram\<close>

text \<open>
  The figure is created before \<^verbatim>\<open>data[feature].values\<close> is read, so a feature that
  is no column raises after one \<open>Figure\<close> event. The values then go to
  \<^verbatim>\<open>sns.distplot(data[feature].values, ax=ax, bins=bins)\<close>, which makes a float
  array of them and estimates a density: it raises on values it cannot take (text that
  is no number, for one). \<open>sns_distplot\<close> stands for that call and gives the
  exception it raises on the values, if any; when it raises, the figure is there and
  nothing else of the iteration has run. The loop has no test on the number of
  distinct values. With \<open>show_dist_type\<close> the source sets no title.
\<close>

definition histogram_body ::
  "(cell list \<Rightarrow> nat option \<Rightarrow> error option) \<Rightarrow> dataframe \<Rightarrow> nat option \<Rightarrow> bool \<Rightarrow>
   nat \<times> nat \<Rightarrow> bool \<Rightarrow> string \<Rightarrow> outcome" where
  "histogram_body sns_distplot data bins show_dist_type fig_size save_fig feature =
     and_then (emit [Figure fig_size])
       (case getitem data (Some feature) of
          Inl e \<Rightarrow> raise e
        | Inr col \<Rightarrow>
            (case sns_distplot col bins of
               Some e \<Rightarrow> raise e
             | None \<Rightarrow>
                 emit ([Render (Distplot feature col bins),
                        Xlabel feature,
                        Ylabel ''Count'']
                       @ (if show_dist_type then [] else [Title (''Histogram of '' @ feature)])
                       @ (if save_fig then [Savefig (''fig_hist_'' @ feature)] else [])
                       @ [Show])))"

definition histogram ::
  "(dataframe \<Rightarrow> string list) \<Rightarrow> (cell list \<Rightarrow> nat option \<Rightarrow> error option) \<Rightarrow>
   dataframe option \<Rightarrow> string list option \<Rightarrow> nat option \<Rightarrow> bool \<Rightarrow> nat \<times> nat \<Rightarrow> bool \<Rightarrow>
   outcome" where
  "histogram get_num_feats sns_distplot data num_features bins show_dist_type fig_size save_fig =
     (case data of
        None \<Rightarrow> raise (ValueError data_none_msg)
      | Some df \<Rightarrow>
          (let feats = resolve get_num_feats df num_features
           in for_each (histogram_body sns_distplot df bins show_dist_type fig_size save_fig)
                feats))"

text \<open>
  A feature \<open>histogram\<close> can draw: a column of the dataset whose values
  \<^verbatim>\<open>sns.distplot\<close> takes without raising.
\<close>

definition drawable ::
  "(cell list \<Rightarrow> nat option \<Rightarrow> error option) \<Rightarrow> dataframe \<Rightarrow> nat option \<Rightarrow> string \<Rightarrow> bool" where
  "drawable sns_distplot df bins feature =
     (case getitem df (Some feature) of
        Inl e \<Rightarrow> False
      | Inr col \<Rightarrow> sns_distplot col bins = None)"

text \<open>
  The conversion at the head of \<^verbatim>\<open>distplot\<close>, \<^verbatim>\<open>np.asarray(a, np.float)\<close>, on
  the cells of this model: numbers and missing values convert, and the first cell
  that holds text stops it with \<^verbatim>\<open>ValueError\<close>. It is the instance of
  \<open>sns_distplot\<close> used on the example inputs.
\<close>

fun first_text :: "cell list \<Rightarrow> string option" where
  "first_text [] = None"
| "first_text (Str s # cs) = Some s"
| "first_text (c # cs) = first_text cs"

definition refuses_text :: "cell list \<Rightarrow> nat option \<Rightarrow> error option" where
  "refuses_text col bins =
     (case first_text col of
        None \<Rightarrow> None
      | Some s \<Rightarrow>
          Some (ValueError (''could not convert string to float: '' @ apos @ s @ apos)))"

section \<open>class_count\<close>




section \<open>scatterplot\<close>

text \<open>\<^verbatim>\<open>'{}'.format(x)\<close> for an argument that may be \<^verbatim>\<open>None\<close>.\<close>

definition fmt :: "string option \<Rightarrow> string" where
  "fmt x = (case x of None \<Rightarrow> ''None'' | Some s \<Rightarrow> s)"

definition scatterplot_body ::
  "string \<Rightarrow> string option \<Rightarrow> nat \<times> nat \<Rightarrow> bool \<Rightarrow> string \<Rightarrow> outcome" where
  "scatterplot_body target separate_by fig_size save_fig feature =
     emit ([Figure fig_size,
            Render (Scatterplot feature target separate_by),
            Title (''Scatter Plot of '' @ apos @ feature @ apos @ '' vs. '' @ apos @ target @ apos
                   @ '' '' @ newline @ '' Separated by: '' @ apos @ fmt separate_by @ apos)]
           @ (if save_fig then [Savefig (''fig_scatterplot_'' @ feature)] else []))"

definition scatterplot ::
  "(dataframe \<Rightarrow> string list) \<Rightarrow> dataframe option \<Rightarrow> string list option \<Rightarrow>
   string option \<Rightarrow> string option \<Rightarrow> nat \<times> nat \<Rightarrow> bool \<Rightarrow> outcome" where
  "scatterplot get_num_feats data num_features target separate_by fig_size save_fig =
     (case data of
        None \<Rightarrow> raise (ValueError data_none_msg)
      | Some df \<Rightarrow>
          (case (case separate_by of
                   None \<Rightarrow> None
                 | Some sep \<Rightarrow>
                     if sep \<notin> set (df_columns df)
                     then Some (ValueError (sep @ '' not found in data columns''))
                     else None) of
             Some e \<Rightarrow> raise e
           | None \<Rightarrow>
               (case target of
                  None \<Rightarrow> raise (ValueError target_none_msg)
                | Some tgt \<Rightarrow>
                    (let feats = resolve get_num_feats df num_features
                     in for_each (scatterplot_body tgt separate_by fig_size save_fig) feats))))"

section \<open>catbox\<close>

text \<open>
  \<^verbatim>\<open>try: cat_features.remove(target) except: pass\<close>: the first occurrence of the
  target leaves the list; a target that is not in the list (or is \<^verbatim>\<open>None\<close>) makes
  \<^verbatim>\<open>remove\<close> raise, and the bare \<^verbatim>\<open>except\<close> swallows that.
\<close>

definition remove_target :: "string list \<Rightarrow> string option \<Rightarrow> string list" where
  "remove_target feats target =
     (case target of
        None \<Rightarrow> feats
      | Some t \<Rightarrow> remove1 t feats)"

text \<open>
  \<^verbatim>\<open>data[['dummy_count', target, feature]].groupby([target, feature],
  as_index=False).count()\<close>: one row for each pair of a target value and a feature
  value that occurs in the data, neither of them missing, with the number of rows that
  hold the pair (every \<^verbatim>\<open>dummy_count\<close> cell is a one, so \<^verbatim>\<open>count\<close> counts them
  all). When two of the three names coincide the selection has a column twice and
  pandas refuses to group by it.
\<close>

definition group_counts ::
  "dataframe \<Rightarrow> string option \<Rightarrow> string \<Rightarrow> error + ((cell \<times> cell) \<times> nat) fset" where
  "group_counts data target feature =
     (case getitem data target of
        Inl e \<Rightarrow> Inl e
      | Inr tcol \<Rightarrow>
          (case getitem data (Some feature) of
             Inl e \<Rightarrow> Inl e
           | Inr fcol \<Rightarrow>
               if target = Some feature \<or> target = Some ''dummy_count''
               then Inl (ValueError (''Grouper for '' @ apos @ fmt target @ apos
                                     @ '' not 1-dimensional''))
               else if feature = ''dummy_count''
               then Inl (ValueError (''Grouper for '' @ apos @ feature @ apos
                                     @ '' not 1-dimensional''))
               else
                 (let rows = zip tcol fcol
                  in Inr ((\<lambda>p. (p, count_list rows p)) |`|
                            fset_of_list (filter (\<lambda>(t, f). t \<noteq> NA \<and> f \<noteq> NA) rows)))))"

text \<open>
  \<^verbatim>\<open>counts[counts[target] == cat][[feature, 'dummy_count']]\<close>: the rows of one
  target category, as pairs of a feature value and its count.
\<close>

definition category_rows ::
  "((cell \<times> cell) \<times> nat) fset \<Rightarrow> cell \<Rightarrow> (cell \<times> nat) fset" where
  "category_rows counts cat =
     (\<lambda>((t, f), n). (f, n)) |`| ffilter (\<lambda>((t, f), n). t = cat) counts"

definition catbox_subplot ::
  "((cell \<times> cell) \<times> nat) fset \<Rightarrow> nat \<Rightarrow> bool \<Rightarrow> string \<Rightarrow> nat \<times> cell \<Rightarrow> outcome" where
  "catbox_subplot counts ncats save_fig feature ic =
     (case ic of (i, cat) \<Rightarrow>
        emit ([Subplot 1 ncats (i + 1),
               Render (Barplot feature (category_rows counts cat)),
               Xticks,
               CountsTitle feature cat,
               Ylabel ''count'',
               TightLayout]
              @ (if save_fig then [Savefig (''fig_catbox_'' @ feature)] else [])))"

definition catbox_body ::
  "dataframe \<Rightarrow> string option \<Rightarrow> nat \<times> nat \<Rightarrow> bool \<Rightarrow> string \<Rightarrow> outcome" where
  "catbox_body data target fig_size save_fig feature =
     (case getitem data (Some feature) of
        Inl e \<Rightarrow> raise e
      | Inr fcol \<Rightarrow>
          if length (unique fcol) > 10
          then emit [Print (feature @ '' feature has too many categories and will not be ploted'')]
          else
            (case group_counts data target feature of
               Inl e \<Rightarrow> raise e
             | Inr counts \<Rightarrow>
                 (case getitem data target of
                    Inl e \<Rightarrow> raise e
                  | Inr tcol \<Rightarrow>
                      (let cats = unique tcol
                       in if length cats > 6
                          then raise (ValueError (''Target column: '' @ apos @ fmt target @ apos
                                 @ '' must contain less than six unique classes''))
                          else and_then (emit [Figure fig_size])
                                 (for_each (catbox_subplot counts (length cats) save_fig feature)
                                    (enumerate 0 cats))))))"

text \<open>
  The result of \<^verbatim>\<open>catbox\<close> adds the two objects it mutates in place:
  \<open>data_after\<close> is the caller's DataFrame and \<open>cat_features_after\<close> the caller's
  list when the call ends, by return or by exception. A list inferred by
  \<^verbatim>\<open>get_cat_feats\<close> is the call's own, and \<open>cat_features_after\<close> stays
  \<^verbatim>\<open>None\<close>.
\<close>

record catbox_outcome = outcome +
  data_after :: "dataframe option"
  cat_features_after :: "string list option"

definition catbox ::
  "(dataframe \<Rightarrow> string list) \<Rightarrow> dataframe option \<Rightarrow> string list option \<Rightarrow>
   string option \<Rightarrow> nat \<times> nat \<Rightarrow> bool \<Rightarrow> catbox_outcome" where
  "catbox get_cat_feats data cat_features target fig_size save_fig =
     (case data of
        None \<Rightarrow>
          \<lparr>raised = Some (ValueError data_none_msg), events = [],
           data_after = None, cat_features_after = cat_features\<rparr>
      | Some df \<Rightarrow>
          (let feats = remove_target (resolve get_cat_feats df cat_features) target;
               callers = (case cat_features of
                            None \<Rightarrow> None
                          | Some fs \<Rightarrow> Some feats)
           in case getitem df target of
                Inl e \<Rightarrow>
                  \<lparr>raised = Some e, events = [],
                   data_after = Some df, cat_features_after = callers\<rparr>
              | Inr tcol \<Rightarrow>
                  if length (unique tcol) > 8
                  then \<lparr>raised = Some (AttributeError ''Target categories must be less than seven''),
                        events = [],
                        data_after = Some df, cat_features_after = callers\<rparr>
                  else
                    (let df1 = setitem df ''dummy_count'' (replicate (nrows df) (Num 1));
                         r = for_each (catbox_body df1 target fig_size save_fig) feats
                     in case raised r of
                          Some e \<Rightarrow>
                            \<lparr>raised = Some e, events = events r,
                             data_after = Some df1, cat_features_after = callers\<rparr>
                        | None \<Rightarrow>
                            (case drop_column df1 ''dummy_count'' of
                               Inl e \<Rightarrow>
                                 \<lparr>raised = Some e, events = events r,
                                  data_after = Some df1, cat_features_after = callers\<rparr>
                             | Inr df2 \<Rightarrow>
                                 \<lparr>raised = None, events = events r,
                                  data_after = Some df2, cat_features_after = callers\<rparr>))))"

section \<open>Example inputs\<close>

text \<open>
  A frame of 31 rows: \<open>id\<close> holds 31 distinct numbers, \<open>grade\<close> one value.
\<close>

definition wide_frame :: dataframe where
  "wide_frame =
     \<lparr>nrows = 31,
      cols = [(''id'', map (\<lambda>n. Num (int n)) [0..<31]),
              (''grade'', replicate 31 (Str ''a''))]\<rparr>"

text \<open>
  A frame of 7 rows whose column \<open>t\<close> holds the seven values A to G, and \<open>f\<close> one
  value.
\<close>

definition letters :: "cell list" where
  "letters = [Str ''A'', Str ''B'', Str ''C'', Str ''D'', Str ''E'', Str ''F'', Str ''G'']"

definition seven_frame :: dataframe where
  "seven_frame =
     \<lparr>nrows = 7,
      cols = [(''t'', letters), (''f'', replicate 7 (Str ''x''))]\<rparr>"

text \<open>
  A frame of 31 rows with two numerical columns: \<open>id\<close> holds 31 distinct numbers,
  \<open>score\<close> the numbers 0, 1 and 2.
\<close>

definition score_frame :: dataframe where
  "score_frame =
     \<lparr>nrows = 31,
      cols = [(''id'', map (\<lambda>n. Num (int n)) [0..<31]),
              (''score'', map (\<lambda>n. Num (int (n mod 3))) [0..<31])]\<rparr>"

text \<open>A frame of 11 rows whose column \<open>t\<close> holds 11 distinct strings.\<close>

definition eleven_frame :: dataframe where
  "eleven_frame =
     \<lparr>nrows = 11,
      cols = [(''t'', letters @ [Str ''H'', Str ''I'', Str ''J'', Str ''K'']),
              (''v'', map (\<lambda>n. Num (int n)) [0..<11])]\<rparr>"

section \<open>Lemmas on lists of events and on loops\<close>

lemma rendered_append: "rendered (xs @ ys) = rendered xs @ rendered ys"
  by (induction xs rule: rendered.induct) simp_all

lemma printed_append: "printed (xs @ ys) = printed xs @ printed ys"
  by (induction xs rule: printed.induct) simp_all

lemma rendered_concat: "rendered (concat xss) = concat (map rendered xss)"
  by (induction xss) (simp_all add: rendered_append)

lemma printed_concat: "printed (concat xss) = concat (map printed xss)"
  by (induction xss) (simp_all add: printed_append)






text \<open>A loop none of whose iterations raises runs them all, in order.\<close>

lemma for_each_ok:
  "(\<And>x. x \<in> set xs \<Longrightarrow> raised (body x) = None) \<Longrightarrow>
   for_each body xs = emit (concat (map (\<lambda>x. events (body x)) xs))"
  by (induction xs) (simp_all add: and_then_def emit_def)

section \<open>countplot: the ceiling of 30 distinct values\<close>




lemma nunique_wide_frame:
  "nunique wide_frame ''id'' = 31" "nunique wide_frame ''grade'' = 1"
  by code_simp+



section \<open>histogram: no ceiling\<close>

lemma concat_map_single: "concat (map (\<lambda>x. [x]) xs) = xs"
  by (induction xs) simp_all

lemma histogram_body_drawable:
  assumes "drawable sns_distplot df bins f"
  shows "raised (histogram_body sns_distplot df bins sd fs sv f) = None"
    and "rendered (events (histogram_body sns_distplot df bins sd fs sv f)) = [f]"
    and "printed (events (histogram_body sns_distplot df bins sd fs sv f)) = []"
  using assms
  by (auto simp: drawable_def histogram_body_def and_then_def emit_def rendered_append
        printed_append
      split: sum.splits)

lemma histogram_loop:
  assumes "list_all (drawable sns_distplot df bins) feats"
  shows "raised (for_each (histogram_body sns_distplot df bins sd fs sv) feats) = None"
    and "rendered (events (for_each (histogram_body sns_distplot df bins sd fs sv) feats))
           = feats"
    and "printed (events (for_each (histogram_body sns_distplot df bins sd fs sv) feats))
           = []"
proof -
  have d: "\<And>x. x \<in> set feats \<Longrightarrow> drawable sns_distplot df bins x"
    using assms by (simp add: list_all_iff)
  have ok: "\<And>x. x \<in> set feats \<Longrightarrow>
              raised (histogram_body sns_distplot df bins sd fs sv x) = None"
    using d histogram_body_drawable(1) by blast
  note eq = for_each_ok [of feats "histogram_body sns_distplot df bins sd fs sv", OF ok]
  show "raised (for_each (histogram_body sns_distplot df bins sd fs sv) feats) = None"
    by (simp add: eq emit_def)
  have r: "map (\<lambda>x. rendered (events (histogram_body sns_distplot df bins sd fs sv x))) feats
           = map (\<lambda>f. [f]) feats"
    using d by (intro map_cong refl histogram_body_drawable(2)) blast
  show "rendered (events (for_each (histogram_body sns_distplot df bins sd fs sv) feats))
          = feats"
    by (simp add: eq emit_def rendered_concat comp_def r concat_map_single)
  have p: "map (\<lambda>x. printed (events (histogram_body sns_distplot df bins sd fs sv x))) feats
           = map (\<lambda>f. []) feats"
    using d by (intro map_cong refl histogram_body_drawable(3)) blast
  show "printed (events (for_each (histogram_body sns_distplot df bins sd fs sv) feats))
          = []"
    by (simp add: eq emit_def printed_concat comp_def p)
qed

lemma histogram_unfold:
  "histogram get_num_feats sns_distplot (Some df) num_features bins sd fig_size save_fig
     = for_each (histogram_body sns_distplot df bins sd fig_size save_fig)
         (resolve get_num_feats df num_features)"
  by (simp add: histogram_def)

text \<open>
  A column that holds text is not drawn: the call ends at \<^verbatim>\<open>sns.distplot\<close> with the
  exception of the conversion, after the figure was created.
\<close>

lemma histogram_text_column_raises:
  "histogram (\<lambda>d. []) refuses_text (Some wide_frame) (Some [''grade'']) None False (8, 8) False
     = \<lparr>raised = Some (ValueError (''could not convert string to float: '' @ apos @ ''a''
                                    @ apos)),
        events = [Figure (8, 8)]\<rparr>"
  by code_simp

text \<open>
  Claim C5, as stated, fails: \<open>histogram\<close> has no ceiling. On \<open>wide_frame\<close> the
  numerical feature \<open>id\<close> has 31 distinct values, more than 30, and the call draws it
  and prints no warning.
\<close>

theorem histogram_no_ceiling_counterexample:
  "30 < nunique wide_frame ''id''
   \<and> rendered (events (histogram (\<lambda>d. []) refuses_text (Some wide_frame) (Some [''id''])
                          None False (8, 8) False))
       = [''id'']
   \<and> printed (events (histogram (\<lambda>d. []) refuses_text (Some wide_frame) (Some [''id''])
                         None False (8, 8) False))
       = []"
proof -
  have "30 < nunique wide_frame ''id''"
    by (simp add: nunique_wide_frame)
  moreover have "rendered (events (histogram (\<lambda>d. []) refuses_text (Some wide_frame)
                                     (Some [''id'']) None False (8, 8) False))
                   = [''id'']"
    by code_simp
  moreover have "printed (events (histogram (\<lambda>d. []) refuses_text (Some wide_frame)
                                    (Some [''id'']) None False (8, 8) False))
                   = []"
    by code_simp
  ultimately show ?thesis
    by simp
qed

text \<open>
  Claim C5, amended. A call to \<open>histogram\<close> on a dataset, with a feature list (given
  or inferred) of columns of the dataset whose values \<^verbatim>\<open>sns.distplot\<close> takes
  (numerical columns; it raises on text), returns normally and draws one chart for
  every entry of the list, in order, whatever the number of distinct values of the
  feature; it skips none and prints no warning.
\<close>

theorem histogram_renders_every_feature:
  assumes "list_all (drawable sns_distplot df bins) (resolve get_num_feats df num_features)"
  shows "raised (histogram get_num_feats sns_distplot (Some df) num_features bins
                   show_dist_type fig_size save_fig)
           = None
       \<and> rendered (events (histogram get_num_feats sns_distplot (Some df) num_features bins
                               show_dist_type fig_size save_fig))
           = resolve get_num_feats df num_features
       \<and> printed (events (histogram get_num_feats sns_distplot (Some df) num_features bins
                              show_dist_type fig_size save_fig))
           = []"
  unfolding histogram_unfold using histogram_loop [OF assms] by simp

theorem histogram_renders_every_feature_witness:
  "list_all (drawable refuses_text score_frame None)
     (resolve (\<lambda>d. []) score_frame (Some [''id'', ''score'']))
   \<and> nunique score_frame ''id'' = 31
   \<and> nunique score_frame ''score'' = 3
   \<and> raised (histogram (\<lambda>d. []) refuses_text (Some score_frame) (Some [''id'', ''score''])
                None False (8, 8) False)
       = None
   \<and> rendered (events (histogram (\<lambda>d. []) refuses_text (Some score_frame)
                          (Some [''id'', ''score'']) None False (8, 8) False))
       = [''id'', ''score'']
   \<and> printed (events (histogram (\<lambda>d. []) refuses_text (Some score_frame)
                         (Some [''id'', ''score'']) None False (8, 8) False))
       = []"
proof -
  have h: "list_all (drawable refuses_text score_frame None)
             (resolve (\<lambda>d. []) score_frame (Some [''id'', ''score'']))"
    by code_simp
  have n: "nunique score_frame ''id'' = 31" "nunique score_frame ''score'' = 3"
    by code_simp+
  show ?thesis
    using h n histogram_renders_every_feature [OF h, of False "(8, 8)" False]
    by (simp add: resolve_def)
qed

section \<open>class_count with plot=True\<close>





section \<open>boxplot and violinplot: the guards on target and data\<close>

text \<open>
  Claim C2. \<open>boxplot\<close> and \<open>violinplot\<close> called without a target fail with
  \<^verbatim>\<open>ValueError('Target value cannot be None')\<close>; called on a dataset whose target
  column has more than 10 distinct values they fail with
  \<^verbatim>\<open>AttributeError("Target categories must be less than 10")\<close>. Both are raised by
  the functions' own argument checks, and in both cases no call to the plotting library
  has been made.
\<close>

theorem boxplot_violinplot_target_guard:
  "boxplot get_num_feats data num_features None fig_size large_data save_fig
     = \<lparr>raised = Some (ValueError target_none_msg), events = []\<rparr>
   \<and> violinplot get_num_feats data num_features None fig_size save_fig
     = \<lparr>raised = Some (ValueError target_none_msg), events = []\<rparr>
   \<and> (getitem df (Some target) = Inr col \<and> 10 < length (unique col) \<longrightarrow>
        boxplot get_num_feats (Some df) num_features (Some target) fig_size large_data save_fig
          = \<lparr>raised = Some (AttributeError ''Target categories must be less than 10''),
             events = []\<rparr>
      \<and> violinplot get_num_feats (Some df) num_features (Some target) fig_size save_fig
          = \<lparr>raised = Some (AttributeError ''Target categories must be less than 10''),
             events = []\<rparr>)"
  by (simp add: boxplot_def violinplot_def raise_def subscript_def)

theorem boxplot_violinplot_target_guard_witness:
  "getitem eleven_frame (Some ''t'') = Inr (letters @ [Str ''H'', Str ''I'', Str ''J'', Str ''K''])
   \<and> 10 < length (unique (letters @ [Str ''H'', Str ''I'', Str ''J'', Str ''K'']))
   \<and> boxplot (\<lambda>d. []) (Some eleven_frame) (Some [''v'']) (Some ''t'') (8, 8) False False
       = \<lparr>raised = Some (AttributeError ''Target categories must be less than 10''),
          events = []\<rparr>
   \<and> violinplot (\<lambda>d. []) (Some eleven_frame) (Some [''v'']) (Some ''t'') (8, 8) False
       = \<lparr>raised = Some (AttributeError ''Target categories must be less than 10''),
          events = []\<rparr>"
proof -
  have g: "getitem eleven_frame (Some ''t'')
             = Inr (letters @ [Str ''H'', Str ''I'', Str ''J'', Str ''K''])"
    by (simp add: getitem_def eleven_frame_def)
  have u: "10 < length (unique (letters @ [Str ''H'', Str ''I'', Str ''J'', Str ''K'']))"
    by (simp add: unique_def letters_def)
  show ?thesis
    using g u
      boxplot_violinplot_target_guard [where df = eleven_frame and target = "''t''"
        and col = "letters @ [Str ''H'', Str ''I'', Str ''J'', Str ''K'']"
        and get_num_feats = "\<lambda>d. []" and data = "Some eleven_frame"
        and num_features = "Some [''v'']" and fig_size = "(8, 8)"
        and large_data = False and save_fig = False]
    by simp
qed

lemma for_each_never_raises:
  "(\<And>x. raised (body x) = None) \<Longrightarrow> raised (for_each body xs) = None"
  by (induction xs) (simp_all add: and_then_def emit_def)

lemma target_none_msg_neq: "target_none_msg \<noteq> data_none_msg"
  by (simp add: target_none_msg_def data_none_msg_def)

lemma getitem_error: "getitem df (Some t) = Inl e \<Longrightarrow> e = KeyError (Some t)"
  by (auto simp: getitem_def split: option.splits)

lemma boxplot_not_data_error:
  "raised (boxplot get_num_feats data num_features target fig_size large_data save_fig)
     \<noteq> Some (ValueError data_none_msg)"
proof (cases target)
  case None
  then show ?thesis
    by (simp add: boxplot_def raise_def target_none_msg_neq)
next
  case tgt: (Some t)
  show ?thesis
  proof (cases data)
    case None
    with tgt show ?thesis
      by (simp add: boxplot_def raise_def subscript_def)
  next
    case (Some df)
    have "raised (for_each (boxenplot_body t fig_size save_fig) fs) = None" for fs
      by (rule for_each_never_raises) (simp add: boxenplot_body_def emit_def)
    moreover have "raised (for_each (boxplot_body t fig_size save_fig) fs) = None" for fs
      by (rule for_each_never_raises) (simp add: boxplot_body_def emit_def)
    ultimately show ?thesis
      using Some tgt getitem_error [of df t]
      by (auto simp: boxplot_def raise_def subscript_def Let_def split: sum.splits)
  qed
qed

lemma violinplot_not_data_error:
  "raised (violinplot get_num_feats data num_features target fig_size save_fig)
     \<noteq> Some (ValueError data_none_msg)"
proof (cases target)
  case None
  then show ?thesis
    by (simp add: violinplot_def raise_def target_none_msg_neq)
next
  case tgt: (Some t)
  show ?thesis
  proof (cases data)
    case None
    with tgt show ?thesis
      by (simp add: violinplot_def raise_def subscript_def)
  next
    case (Some df)
    have "raised (for_each (violinplot_body t fig_size save_fig) fs) = None" for fs
      by (rule for_each_never_raises) (simp add: violinplot_body_def emit_def)
    then show ?thesis
      using Some tgt getitem_error [of df t]
      by (auto simp: violinplot_def raise_def subscript_def Let_def split: sum.splits)
  qed
qed

text \<open>
  Claim C10. No call to \<open>boxplot\<close> or \<open>violinplot\<close> ends with the documented
  \<^verbatim>\<open>ValueError("data: Expecting a DataFrame or Series, got 'None'")\<close>: the guard
  that raises it stands after the subscript \<^verbatim>\<open>data[target]\<close>. With a target and
  no dataset the call fails at that subscript with a \<^verbatim>\<open>TypeError\<close>, before
  anything is drawn.
\<close>

theorem boxplot_violinplot_data_guard_unreachable:
  "raised (boxplot get_num_feats data num_features target fig_size large_data save_fig)
     \<noteq> Some (ValueError data_none_msg)
   \<and> raised (violinplot get_num_feats data num_features target fig_size save_fig)
     \<noteq> Some (ValueError data_none_msg)
   \<and> boxplot get_num_feats None num_features (Some tgt) fig_size large_data save_fig
     = \<lparr>raised = Some (TypeError (apos @ ''NoneType'' @ apos
                                  @ '' object is not subscriptable'')),
        events = []\<rparr>
   \<and> violinplot get_num_feats None num_features (Some tgt) fig_size save_fig
     = \<lparr>raised = Some (TypeError (apos @ ''NoneType'' @ apos
                                  @ '' object is not subscriptable'')),
        events = []\<rparr>"
  using boxplot_not_data_error violinplot_not_data_error
  by (simp add: boxplot_def violinplot_def raise_def subscript_def)

section \<open>catbox: what it does to the caller's list and dataset\<close>

lemma catbox_list_after:
  "cat_features_after (catbox get_cat_feats (Some df) (Some feats) target fig_size save_fig)
     = Some (remove_target feats target)"
  by (simp add: catbox_def Let_def resolve_def split: sum.splits option.splits)

text \<open>
  Claim C9. When \<open>catbox\<close> is called on a dataset with a list of the caller's, the
  list the caller holds afterwards is the list without the first occurrence of the
  target, on every way out of the call (return or exception): one element shorter when
  the target was in the list, unchanged when it was not or when the target is
  \<^verbatim>\<open>None\<close>.
\<close>

theorem catbox_removes_target:
  "cat_features_after (catbox get_cat_feats (Some df) (Some feats) (Some t) fig_size save_fig)
     = Some (remove1 t feats)
   \<and> (t \<in> set feats \<longrightarrow>
        map_option length
          (cat_features_after
             (catbox get_cat_feats (Some df) (Some feats) (Some t) fig_size save_fig))
          = Some (length feats - 1)
        \<and> length feats - 1 < length feats)
   \<and> (t \<notin> set feats \<longrightarrow>
        cat_features_after
          (catbox get_cat_feats (Some df) (Some feats) (Some t) fig_size save_fig)
          = Some feats)
   \<and> cat_features_after (catbox get_cat_feats (Some df) (Some feats) None fig_size save_fig)
       = Some feats"
  by (auto simp: catbox_list_after remove_target_def length_remove1 remove1_idem)
     (cases feats; simp)

theorem catbox_removes_target_witness:
  "''t'' \<in> set [''t'', ''f'']
   \<and> cat_features_after
        (catbox (\<lambda>d. []) (Some seven_frame) (Some [''t'', ''f'']) (Some ''t'') (12, 6) False)
       = Some [''f'']
   \<and> map_option length
        (cat_features_after
           (catbox (\<lambda>d. []) (Some seven_frame) (Some [''t'', ''f'']) (Some ''t'') (12, 6) False))
       = Some 1
   \<and> ''t'' \<notin> set [''f'']
   \<and> cat_features_after
        (catbox (\<lambda>d. []) (Some seven_frame) (Some [''f'']) (Some ''t'') (12, 6) False)
       = Some [''f'']"
  using catbox_removes_target [of "\<lambda>d. []" seven_frame "[''t'', ''f'']" "''t''" "(12, 6)" False]
    catbox_removes_target [of "\<lambda>d. []" seven_frame "[''f'']" "''t''" "(12, 6)" False]
  by simp

lemma columns_after_add_drop:
  "name \<notin> set (map fst al) \<Longrightarrow>
   map fst (AList.delete name (AList.update name v al)) = map fst al"
  by (simp add: delete_update_same)

text \<open>
  On a normal return the counting column is gone: the dataset has the columns it had,
  provided it had no column \<open>dummy_count\<close> of its own.
\<close>

lemma catbox_columns_on_return:
  assumes "raised (catbox get_cat_feats (Some df) cat_features target fig_size save_fig) = None"
    and "''dummy_count'' \<notin> set (df_columns df)"
  shows "map_option df_columns
           (data_after (catbox get_cat_feats (Some df) cat_features target fig_size save_fig))
         = Some (df_columns df)"
  using assms
  by (auto simp: catbox_def Let_def drop_column_def setitem_def df_columns_def
        columns_after_add_drop
      split: sum.splits option.splits if_splits)

text \<open>
  Claim C1 fails on the code. On \<open>seven_frame\<close> with the feature \<open>f\<close> and the target
  \<open>t\<close> (seven categories, which passes the first test on the target),
  \<open>catbox\<close> adds the column \<open>dummy_count\<close>, reaches the test
  \<^verbatim>\<open>len(cats) > 6\<close> inside the loop and raises; the statement that drops the
  column is not reached, and the caller's dataset keeps a third column.
\<close>

theorem catbox_leaks_dummy_count:
  "df_columns seven_frame = [''t'', ''f'']
   \<and> raised (catbox (\<lambda>d. []) (Some seven_frame) (Some [''f'']) (Some ''t'') (12, 6) False)
       = Some (ValueError (''Target column: '' @ apos @ ''t'' @ apos
                           @ '' must contain less than six unique classes''))
   \<and> events (catbox (\<lambda>d. []) (Some seven_frame) (Some [''f'']) (Some ''t'') (12, 6) False)
       = []
   \<and> map_option df_columns
        (data_after
           (catbox (\<lambda>d. []) (Some seven_frame) (Some [''f'']) (Some ''t'') (12, 6) False))
       = Some [''t'', ''f'', ''dummy_count'']"
  by code_simp

section \<open>catbox: the ceilings on the target\<close>

text \<open>
  Claim C3 fails on the code. The target \<open>t\<close> of \<open>seven_frame\<close> has the seven
  categories A to G. The first test on the target is \<^verbatim>\<open>> 8\<close>, so it passes; the
  test \<^verbatim>\<open>> 6\<close> stands inside the loop over the features, and here the loop has
  nothing to run over once the target has left the list. The call returns normally.
\<close>

theorem catbox_seven_categories_returns:
  "getitem seven_frame (Some ''t'') = Inr letters
   \<and> length (unique letters) = 7
   \<and> raised (catbox (\<lambda>d. [''t'']) (Some seven_frame) None (Some ''t'') (12, 6) False) = None
   \<and> raised (catbox (\<lambda>d. []) (Some seven_frame) (Some [''t'']) (Some ''t'') (12, 6) False)
       = None
   \<and> events (catbox (\<lambda>d. []) (Some seven_frame) (Some [''t'']) (Some ''t'') (12, 6) False)
       = []"
  by code_simp

section \<open>Columns that do not exist\<close>




text \<open>
  \<open>scatterplot\<close> tests its separator against the columns and fails at once when it
  is none of them.
\<close>

lemma scatterplot_unknown_separator:
  "\<not> is_column df (Some sep) \<Longrightarrow>
   scatterplot get_num_feats (Some df) num_features target (Some sep) fig_size save_fig
     = \<lparr>raised = Some (ValueError (sep @ '' not found in data columns'')), events = []\<rparr>"
  by (simp add: scatterplot_def is_column_def raise_def)

text \<open>
  Claim C7 fails on the code for \<open>countplot\<close>, which has no such test: the separator
  is only handed on to \<^verbatim>\<open>sns.countplot\<close>. With a separator that is no column, a
  call with no feature to draw returns normally, and so does a call whose only feature
  is above the ceiling of 30 (it prints the warning).
\<close>

theorem countplot_unknown_separator_returns:
  "\<not> is_column wide_frame (Some ''zzz'')
   \<and> countplot (\<lambda>d. []) (Some wide_frame) (Some []) (Some ''zzz'') (5, 5) False
       = \<lparr>raised = None, events = []\<rparr>
   \<and> countplot (\<lambda>d. []) (Some wide_frame) (Some [''id'']) (Some ''zzz'') (5, 5) False
       = \<lparr>raised = None, events = [Print (too_large_msg ''id''), Print newline]\<rparr>"
  by code_simp

end
